theory Spec2Isabelle
  imports Complex_Main "HOL-Library.AList" "HOL-Library.Log_Nat"
begin

section \<open>Errors raised by the Python code\<close>

text \<open>
  The exceptions that the modelled code can raise.  A function that may raise returns
  \<open>py_error + 'a\<close>, with \<open>Inl\<close> for the exception.
\<close>

datatype py_error = TypeError | AttributeError | KeyError | ZeroDivisionError

section \<open>The growth-rate engine: \<open>vmapplet/organs/internode.py\<close>\<close>

text \<open>
  The engine is embedded twice.  This first embedding idealises Python's numbers as
  exact reals, with no rounding; it carries the relational properties of
  \<open>growth_rate\<close> (which arguments it depends on, which zones agree, which zone bounds
  the others).  The second embedding, further down, computes in binary64 as Python's
  floats do; it carries the numeric contract.  Division is Python's true division,
  which raises \<open>ZeroDivisionError\<close> on a zero divisor.
\<close>

definition py_truediv :: "real \<Rightarrow> real \<Rightarrow> py_error + real" where
  "py_truediv a b = (if b = 0 then Inl ZeroDivisionError else Inr (a / b))"

text \<open>
  The attributes that \<open>Internode.__init__\<close> sets, in the order it sets them, over the
  type \<open>'n\<close> of numbers.
\<close>

record 'n Internode =
  min_length :: 'n
  plastochron :: 'n
  elongation_period :: 'n
  max_length :: 'n
  final_none :: 'n
  final_dormant_start :: 'n
  final_small :: 'n
  final_diffuse :: 'n
  final_medium :: 'n
  final_floral :: 'n
  final_dormant_end :: 'n
  final_else :: 'n

text \<open>
  \<open>Internode.__init__(self, min_length, elongation_period, plastochron, max_length)\<close>.
  The divisor \<open>1.5\<close> is a non-zero literal, so no division here can raise.  Python reads
  \<open>0.25 * m / 1.5\<close> as \<open>(0.25 * m) / 1.5\<close>.
\<close>

definition Internode_init :: "real \<Rightarrow> real \<Rightarrow> real \<Rightarrow> real \<Rightarrow> real Internode" where
  "Internode_init min_len elong_period plasto max_len =
     \<lparr> min_length = min_len,
       plastochron = plasto,
       elongation_period = elong_period,
       max_length = max_len,
       final_none = max_len / 1.5,
       final_dormant_start = 0.25 * max_len / 1.5,
       final_small = 0.5 * max_len / 1.5,
       final_diffuse = max_len / 1.5,
       final_medium = 0.75 * max_len / 1.5,
       final_floral = 0.5 * max_len / 1.5,
       final_dormant_end = 0.25 * max_len / 1.5,
       final_else = 0.25 * max_len / 1.5 \<rparr>"

text \<open>
  \<open>Internode.growth_rate(self, uzone)\<close>: the zone is \<open>None\<close> or a string; the
  \<open>if\<close>/\<open>elif\<close> chain is kept in the source's order.
\<close>

definition growth_rate :: "real Internode \<Rightarrow> string option \<Rightarrow> py_error + real" where
  "growth_rate self uzone =
     (if uzone = None then py_truediv (final_none self) (elongation_period self)
      else if uzone = Some ''dormant_start''
        then py_truediv (final_dormant_start self) (elongation_period self)
      else if uzone = Some ''small''
        then py_truediv (final_small self) (elongation_period self)
      else if uzone = Some ''diffuse''
        then py_truediv (final_diffuse self) (elongation_period self)
      else if uzone = Some ''medium''
        then py_truediv (final_medium self) (elongation_period self)
      else if uzone = Some ''floral''
        then py_truediv (final_floral self) (elongation_period self)
      else if uzone = Some ''dormant_end''
        then py_truediv (final_dormant_end self) (elongation_period self)
      else py_truediv (final_else self) (elongation_period self))"

text \<open>
  The specification's table of per-zone fractions and its terminal length in exact
  arithmetic: the maximum length divided by \<open>1.5\<close>, times the fraction of the zone.
  These two definitions follow the specification's words; \<open>growth_rate\<close> above follows
  the source.
\<close>

definition zone_fraction_spec :: "string option \<Rightarrow> real" where
  "zone_fraction_spec z =
     (if z = None \<or> z = Some ''diffuse'' then 1
      else if z = Some ''medium'' then 0.75
      else if z = Some ''small'' \<or> z = Some ''floral'' then 0.5
      else 0.25)"

definition terminal_length_spec :: "real \<Rightarrow> string option \<Rightarrow> real" where
  "terminal_length_spec max_len z = max_len / 1.5 * zone_fraction_spec z"


section \<open>The growth-rate engine in binary64\<close>

text \<open>
  A Python float is an IEEE 754 binary64 number: a finite value, an infinity or a NaN.
  A finite value is given by the rational it denotes; the sign of a zero is not kept
  (Python's \<open>==\<close> does not see it, and a division by either zero raises).  An
  equation between two floats below says that they are the same float; on NaN,
  Python's \<open>==\<close> answers \<open>False\<close> even then.
\<close>

datatype pyfloat = Finite rat | PosInf | NegInf | NaN

text \<open>
  \<open>ilog2 a\<close> is the binary exponent of a positive rational: the integer \<open>e\<close> with
  \<open>2\<^sup>e \<le> a < 2\<^sup>e\<^sup>+\<^sup>1\<close>.
\<close>

definition ilog2 :: "rat \<Rightarrow> int" where
  "ilog2 a =
     (case quotient_of a of
        (p, d) \<Rightarrow>
          let c = bitlen p - bitlen d
          in if 2 powi c \<le> a then c else c - 1)"

text \<open>Rounding a rational to the nearest integer, a tie going to the even one.\<close>

definition round_half_even :: "rat \<Rightarrow> int" where
  "round_half_even t =
     (let f = \<lfloor>t\<rfloor>; r = t - of_int f
      in if r < 1 / 2 then f
         else if 1 / 2 < r then f + 1
         else if even f then f else f + 1)"

text \<open>
  \<open>round64 q\<close> is the float that an operation with the exact result \<open>q\<close> returns:
  the nearest multiple of the unit in the last place, ties to even, where the unit is
  \<open>2\<^sup>e\<^sup>-\<^sup>5\<^sup>2\<close> for the exponent \<open>e\<close> of \<open>q\<close>, and \<open>2\<^sup>-\<^sup>1\<^sup>0\<^sup>7\<^sup>4\<close> in the subnormal range;
  a result of magnitude \<open>2\<^sup>1\<^sup>0\<^sup>2\<^sup>4\<close> or more is an infinity.  It is also the value of a
  decimal literal: \<open>0.03\<close> is \<open>round64 (3 / 100)\<close>.
\<close>

definition round64 :: "rat \<Rightarrow> pyfloat" where
  "round64 q =
     (if q = 0 then Finite 0
      else
        let a = \<bar>q\<bar>;
            e = max (ilog2 a) (- 1022);
            ulp = 2 powi (e - 52);
            r = of_int (round_half_even (a / ulp)) * ulp
        in if 2 powi 1024 \<le> r
           then (if 0 < q then PosInf else NegInf)
           else Finite (if 0 < q then r else - r))"

text \<open>
  Multiplication and division of floats.  \<open>fdiv\<close> is the division where it returns:
  it is only applied to a divisor that is not zero, the literal \<open>1.5\<close> or a divisor
  that \<open>py_truediv_float\<close> has tested, as Python tests it before dividing.
\<close>

fun fmul :: "pyfloat \<Rightarrow> pyfloat \<Rightarrow> pyfloat" where
  "fmul NaN y = NaN"
| "fmul x NaN = NaN"
| "fmul (Finite a) (Finite b) = round64 (a * b)"
| "fmul (Finite a) PosInf = (if a = 0 then NaN else if 0 < a then PosInf else NegInf)"
| "fmul (Finite a) NegInf = (if a = 0 then NaN else if 0 < a then NegInf else PosInf)"
| "fmul PosInf (Finite b) = (if b = 0 then NaN else if 0 < b then PosInf else NegInf)"
| "fmul NegInf (Finite b) = (if b = 0 then NaN else if 0 < b then NegInf else PosInf)"
| "fmul PosInf PosInf = PosInf"
| "fmul PosInf NegInf = NegInf"
| "fmul NegInf PosInf = NegInf"
| "fmul NegInf NegInf = PosInf"

fun fdiv :: "pyfloat \<Rightarrow> pyfloat \<Rightarrow> pyfloat" where
  "fdiv NaN y = NaN"
| "fdiv x NaN = NaN"
| "fdiv (Finite a) (Finite b) = round64 (a / b)"
| "fdiv (Finite a) PosInf = Finite 0"
| "fdiv (Finite a) NegInf = Finite 0"
| "fdiv PosInf (Finite b) = (if 0 \<le> b then PosInf else NegInf)"
| "fdiv NegInf (Finite b) = (if 0 \<le> b then NegInf else PosInf)"
| "fdiv PosInf PosInf = NaN"
| "fdiv PosInf NegInf = NaN"
| "fdiv NegInf PosInf = NaN"
| "fdiv NegInf NegInf = NaN"

definition py_truediv_float :: "pyfloat \<Rightarrow> pyfloat \<Rightarrow> py_error + pyfloat" where
  "py_truediv_float a b = (if b = Finite 0 then Inl ZeroDivisionError else Inr (fdiv a b))"

text \<open>
  \<open>Internode.__init__\<close> and \<open>Internode.growth_rate\<close> on floats, each operation
  rounded, in the order Python evaluates them.  The literals \<open>0.25\<close>, \<open>0.5\<close>, \<open>0.75\<close>
  and \<open>1.5\<close> are floats exactly.  The divisions by \<open>1.5\<close> cannot raise.
\<close>

definition Internode_init_float ::
  "pyfloat \<Rightarrow> pyfloat \<Rightarrow> pyfloat \<Rightarrow> pyfloat \<Rightarrow> pyfloat Internode" where
  "Internode_init_float min_len elong_period plasto max_len =
     \<lparr> min_length = min_len,
       plastochron = plasto,
       elongation_period = elong_period,
       max_length = max_len,
       final_none = fdiv max_len (Finite 1.5),
       final_dormant_start = fdiv (fmul (Finite 0.25) max_len) (Finite 1.5),
       final_small = fdiv (fmul (Finite 0.5) max_len) (Finite 1.5),
       final_diffuse = fdiv max_len (Finite 1.5),
       final_medium = fdiv (fmul (Finite 0.75) max_len) (Finite 1.5),
       final_floral = fdiv (fmul (Finite 0.5) max_len) (Finite 1.5),
       final_dormant_end = fdiv (fmul (Finite 0.25) max_len) (Finite 1.5),
       final_else = fdiv (fmul (Finite 0.25) max_len) (Finite 1.5) \<rparr>"

definition growth_rate_float :: "pyfloat Internode \<Rightarrow> string option \<Rightarrow> py_error + pyfloat" where
  "growth_rate_float self uzone =
     (if uzone = None then py_truediv_float (final_none self) (elongation_period self)
      else if uzone = Some ''dormant_start''
        then py_truediv_float (final_dormant_start self) (elongation_period self)
      else if uzone = Some ''small''
        then py_truediv_float (final_small self) (elongation_period self)
      else if uzone = Some ''diffuse''
        then py_truediv_float (final_diffuse self) (elongation_period self)
      else if uzone = Some ''medium''
        then py_truediv_float (final_medium self) (elongation_period self)
      else if uzone = Some ''floral''
        then py_truediv_float (final_floral self) (elongation_period self)
      else if uzone = Some ''dormant_end''
        then py_truediv_float (final_dormant_end self) (elongation_period self)
      else py_truediv_float (final_else self) (elongation_period self))"

text \<open>
  The table of per-zone fractions, and the terminal length of a zone as the
  constructor computes it: the maximum length divided by \<open>1.5\<close> where the fraction is
  1, else the fraction times the maximum length, rounded, divided by \<open>1.5\<close>.
\<close>

definition zone_fraction_float :: "string option \<Rightarrow> rat" where
  "zone_fraction_float z =
     (if z = None \<or> z = Some ''diffuse'' then 1
      else if z = Some ''medium'' then 0.75
      else if z = Some ''small'' \<or> z = Some ''floral'' then 0.5
      else 0.25)"

definition terminal_length_float :: "pyfloat \<Rightarrow> string option \<Rightarrow> pyfloat" where
  "terminal_length_float max_len z =
     (if zone_fraction_float z = 1 then fdiv max_len (Finite 1.5)
      else fdiv (fmul (Finite (zone_fraction_float z)) max_len) (Finite 1.5))"


section \<open>Python values\<close>

text \<open>
  The configuration code is dynamically typed: \<open>_make_dataclass\<close> asks whether a value
  is a \<open>dict\<close>, and \<open>OptionsMarkov.__post_init__\<close> iterates over whatever it was given.
  Values are therefore one datatype: the data that the text format can carry (none,
  booleans, integers, floats, strings, datetimes, lists, dicts), tuples, and the
  instances of the twelve dataclasses.  A dict is the list of its items in insertion
  order; a dict that Python can build has pairwise different keys.  \<open>PDict\<close> is a
  mapping whose type is \<open>dict\<close> itself; \<open>PSubDict\<close> is an instance of a proper subclass
  of \<open>dict\<close> (\<open>collections.OrderedDict\<close>, the inline table of the toml decoder): a
  dict in every respect, but \<open>type(x) is dict\<close> is false of it.  Keys are compared
  structurally (Python also identifies \<open>1\<close>, \<open>1.0\<close> and \<open>True\<close> as keys; no key of the
  code is a number).  An instance is its class and the list of its fields with their
  current values, in declaration order.  Floats are idealised as reals.
\<close>

datatype cls =
    OptionsGeneral | OptionsInput | OptionsOutput | OptionsEvents | OptionsTree
  | OptionsWood | OptionsInternode | OptionsApex | OptionsMarkov | OptionsFruit
  | OptionsLeaf

datatype pyval =
    PNone
  | PBool bool
  | PInt int
  | PFloat real
  | PStr string
  | PDatetime int int int int int int int
  | PList "pyval list"
  | PTuple "pyval list"
  | PDict "(pyval \<times> pyval) list"
  | PSubDict "(pyval \<times> pyval) list"
  | PGroup cls "(string \<times> pyval) list"
  | POptions "(string \<times> pyval) list"

text \<open>
  \<open>dataclasses._asdict_inner\<close>: an instance becomes the dict of its fields, lists,
  tuples and dicts are rebuilt, as values of their own type, from their converted
  parts, anything else is deep-copied (the same value).
\<close>

fun asdict_inner :: "pyval \<Rightarrow> pyval" where
  "asdict_inner (PGroup c fs) = PDict (map (\<lambda>(n, v). (PStr n, asdict_inner v)) fs)"
| "asdict_inner (POptions fs) = PDict (map (\<lambda>(n, v). (PStr n, asdict_inner v)) fs)"
| "asdict_inner (PList xs) = PList (map asdict_inner xs)"
| "asdict_inner (PTuple xs) = PTuple (map asdict_inner xs)"
| "asdict_inner (PDict kvs) = PDict (map (\<lambda>(k, v). (asdict_inner k, asdict_inner v)) kvs)"
| "asdict_inner (PSubDict kvs) =
     PSubDict (map (\<lambda>(k, v). (asdict_inner k, asdict_inner v)) kvs)"
| "asdict_inner v = v"

text \<open>\<open>dataclasses.asdict\<close> raises \<open>TypeError\<close> on anything but a dataclass instance.\<close>

fun dc_asdict :: "pyval \<Rightarrow> py_error + pyval" where
  "dc_asdict (PGroup c fs) = Inr (asdict_inner (PGroup c fs))"
| "dc_asdict (POptions fs) = Inr (asdict_inner (POptions fs))"
| "dc_asdict v = Inl TypeError"

text \<open>
  Lists, dicts and the dataclass instances (which define equality and are not frozen)
  are unhashable; a tuple is hashable when its items are.
\<close>

fun hashable :: "pyval \<Rightarrow> bool" where
  "hashable (PList xs) = False"
| "hashable (PDict kvs) = False"
| "hashable (PSubDict kvs) = False"
| "hashable (PGroup c fs) = False"
| "hashable (POptions fs) = False"
| "hashable (PTuple xs) = list_all hashable xs"
| "hashable v = True"

text \<open>
  What a \<open>for\<close> loop (here \<open>enumerate\<close>) visits: the items of a list or tuple, the keys
  of a dict, the characters of a string, the field names of a dataclass instance
  (\<open>OptionsBase.__iter__\<close>); every other value is not iterable.
\<close>

fun py_iter :: "pyval \<Rightarrow> py_error + pyval list" where
  "py_iter (PList xs) = Inr xs"
| "py_iter (PTuple xs) = Inr xs"
| "py_iter (PDict kvs) = Inr (map fst kvs)"
| "py_iter (PSubDict kvs) = Inr (map fst kvs)"
| "py_iter (PStr s) = Inr (map (\<lambda>c. PStr [c]) s)"
| "py_iter (PGroup c fs) = Inr (map (\<lambda>(n, v). PStr n) fs)"
| "py_iter (POptions fs) = Inr (map (\<lambda>(n, v). PStr n) fs)"
| "py_iter v = Inl TypeError"

text \<open>
  \<open>x.items()\<close>: a dict has it, and so has a dataclass instance, through the \<open>Mapping\<close>
  base class (the pairs of a field name and \<open>self[name]\<close>); no other value has the
  attribute.
\<close>

fun py_items :: "pyval \<Rightarrow> py_error + (pyval \<times> pyval) list" where
  "py_items (PDict kvs) = Inr kvs"
| "py_items (PSubDict kvs) = Inr kvs"
| "py_items (PGroup c fs) = Inr (map (\<lambda>(n, v). (PStr n, asdict_inner v)) fs)"
| "py_items (POptions fs) = Inr (map (\<lambda>(n, v). (PStr n, asdict_inner v)) fs)"
| "py_items v = Inl AttributeError"

text \<open>
  \<open>d[k] = v\<close> on a dict: the value of an existing key is replaced in place, a new key
  is appended.  The keys stored by the code come out of a dict, so they are hashable.
\<close>

definition dict_setitem ::
  "(pyval \<times> pyval) list \<Rightarrow> pyval \<Rightarrow> pyval \<Rightarrow> (pyval \<times> pyval) list" where
  "dict_setitem d k v = AList.update k v d"

text \<open>\<open>d.__getitem__(key)\<close> on a dict.\<close>

fun dict_getitem :: "pyval \<Rightarrow> pyval \<Rightarrow> py_error + pyval" where
  "dict_getitem (PDict kvs) key =
     (if hashable key
      then (case map_of kvs key of None \<Rightarrow> Inl KeyError | Some v \<Rightarrow> Inr v)
      else Inl TypeError)"
| "dict_getitem (PSubDict kvs) key =
     (if hashable key
      then (case map_of kvs key of None \<Rightarrow> Inl KeyError | Some v \<Rightarrow> Inr v)
      else Inl TypeError)"
| "dict_getitem d key = Inl TypeError"

section \<open>The parameter groups: \<open>vmapplet/options.py\<close>\<close>

text \<open>\<open>OptionsBase.__getitem__(self, key)\<close>.\<close>

definition OptionsBase_getitem :: "pyval \<Rightarrow> pyval \<Rightarrow> py_error + pyval" where
  "OptionsBase_getitem self key =
     (case dc_asdict self of Inl e \<Rightarrow> Inl e | Inr d \<Rightarrow> dict_getitem d key)"

text \<open>The value of \<open>dict(day=d, month=m, duration=n)\<close>.\<close>

definition event :: "int \<Rightarrow> int \<Rightarrow> int \<Rightarrow> pyval" where
  "event d m n =
     PDict [(PStr ''day'', PInt d), (PStr ''month'', PInt m), (PStr ''duration'', PInt n)]"

text \<open>
  The declared fields of the eleven sub-groups with their defaults (the value a default
  factory returns), in declaration order.  The default of \<open>lpy_path\<close> depends on where
  the module is installed; it is the parameter \<open>lpy\<close>.
\<close>

fun declared :: "string \<Rightarrow> cls \<Rightarrow> (string \<times> pyval) list" where
  "declared lpy OptionsGeneral =
     [(''date_start'', PDatetime 1994 1 1 0 0 0 0),
      (''date_end'', PDatetime 1998 6 30 0 0 0 0),
      (''seed'', PInt 1163078255),
      (''second_year_draws'', PBool True),
      (''ruptures'', PBool False),
      (''stake'', PBool True),
      (''select_trunk'', PInt 0),
      (''mechanics'', PBool True),
      (''render_mode'', PStr ''bark''),
      (''stride_number'', PInt 5),
      (''pruning'', PBool False),
      (''convergence_steps'', PInt 2)]"
| "declared lpy OptionsOutput =
     [(''sequences'', PBool False),
      (''l_string'', PBool False),
      (''light_interception'', PBool False),
      (''counts'', PBool False),
      (''trunk'', PBool False),
      (''leaves'', PBool True),
      (''mtg'', PBool False),
      (''shoots'', PBool False)]"
| "declared lpy OptionsInput =
     [(''lpy_files'', PDict []),
      (''lpy_path'', PStr lpy)]"
| "declared lpy OptionsEvents =
     [(''bud_break'', event 15 5 1),
      (''new_cambial_layer'', event 15 5 1),
      (''pre_harvest'', event 29 10 1),
      (''harvest'', event 30 10 1),
      (''autumn'', event 1 11 45),
      (''leaf_fall'', event 15 11 45),
      (''leaf_out'', event 25 12 1)]"
| "declared lpy OptionsTree =
     [(''phyllotactic_angle'', PFloat (- 144.0)),
      (''branching_angle'', PFloat 45.0),
      (''floral_angle'', PFloat (- 10.0)),
      (''tropism'', PFloat 0.1),
      (''preformed_leaves'', PInt 8),
      (''spur_death_probability'', PFloat 0.3),
      (''inflorescence_death_probability'', PFloat 0.2)]"
| "declared lpy OptionsWood =
     [(''wood_density'', PInt 1000),
      (''reaction_wood_rate'', PFloat 0.5),
      (''reaction_wood_inertia_coefficient'', PFloat 0.1),
      (''youngs_modulus'', PFloat 1.1),
      (''modulus_of_rupture'', PFloat 50000000)]"
| "declared lpy OptionsInternode =
     [(''min_length'', PFloat 0.0001),
      (''elongation_period'', PFloat 10.0),
      (''plastochron'', PFloat 3.0),
      (''max_length'', PFloat 0.03)]"
| "declared lpy OptionsApex =
     [(''terminal_expansion_rate'', PFloat 0.00002),
      (''minimum_size'', PFloat 0.00075),
      (''maximum_size'', PFloat 0.003)]"
| "declared lpy OptionsMarkov =
     [(''maximum_length'', PInt 70),
      (''minimum_length'', PInt 4),
      (''terminal_fate'', PDict [])]"
| "declared lpy OptionsFruit =
     [(''flower_duration'', PFloat 10.0),
      (''max_relative_growth_rate'', PFloat 0.167),
      (''lost_time'', PInt 28),
      (''max_age'', PInt 147),
      (''probability'', PFloat 0.3),
      (''max_absolute_growth_rate'', PFloat 0.0018)]"
| "declared lpy OptionsLeaf =
     [(''fall_probability'', PFloat 0.1),
      (''maturation'', PInt 12),
      (''mass_per_area'', PFloat 0.220),
      (''max_area'', PFloat 0.003),
      (''min_final_area'', PFloat 0.0020),
      (''petiole_radius'', PFloat 0.0006),
      (''preformed_leaves'', PInt 8)]"

text \<open>
  The \<open>__init__\<close> that \<open>@dataclass\<close> generates, called as \<open>cls(**kwargs)\<close>: a keyword
  that is not a string, or not the name of a declared field, is a \<open>TypeError\<close>; a field
  takes the keyword's value, or its default.
\<close>

definition kwargs_ok :: "string list \<Rightarrow> (pyval \<times> pyval) list \<Rightarrow> bool" where
  "kwargs_ok names kwargs = list_all (\<lambda>k. k \<in> set (map PStr names)) (map fst kwargs)"

definition dataclass_init ::
  "(string \<times> pyval) list \<Rightarrow> (pyval \<times> pyval) list \<Rightarrow> py_error + (string \<times> pyval) list" where
  "dataclass_init decl kwargs =
     (if kwargs_ok (map fst decl) kwargs
      then Inr (map (\<lambda>(n, d). (n, case map_of kwargs (PStr n) of
                                      Some v \<Rightarrow> v | None \<Rightarrow> d)) decl)
      else Inl TypeError)"

text \<open>
  \<open>OptionsMarkov.__post_init__\<close>.  \<open>fate_items\<close> is the inner loop over
  \<open>item.items()\<close>, \<open>fate_loop\<close> the outer loop over \<open>enumerate(self.terminal_fate)\<close>
  with \<open>i\<close> the running index, and \<open>post_init_fate\<close> the value of the local variable
  \<open>fate\<close> when the method assigns it to \<open>self.terminal_fate\<close>.
\<close>

fun fate_items ::
  "int \<Rightarrow> (pyval \<times> pyval) list \<Rightarrow> (pyval \<times> pyval) list \<Rightarrow> (pyval \<times> pyval) list" where
  "fate_items i [] fate = fate"
| "fate_items i ((key, val) # rest) fate =
     fate_items i rest (dict_setitem fate (PTuple [PInt (i + 1), key]) val)"

fun fate_loop ::
  "int \<Rightarrow> pyval list \<Rightarrow> (pyval \<times> pyval) list \<Rightarrow> py_error + (pyval \<times> pyval) list" where
  "fate_loop i [] fate = Inr fate"
| "fate_loop i (item # rest) fate =
     (case py_items item of
        Inl e \<Rightarrow> Inl e
      | Inr kvs \<Rightarrow> fate_loop (i + 1) rest (fate_items i kvs fate))"

definition post_init_fate :: "pyval \<Rightarrow> py_error + pyval" where
  "post_init_fate terminal_fate =
     (if terminal_fate \<noteq> PNone
      then (case py_iter terminal_fate of
              Inl e \<Rightarrow> Inl e
            | Inr its \<Rightarrow>
                (case fate_loop 0 its [] of
                   Inl e \<Rightarrow> Inl e
                 | Inr fate \<Rightarrow> Inr (PDict fate)))
      else Inr PNone)"

definition OptionsMarkov_post_init ::
  "(string \<times> pyval) list \<Rightarrow> py_error + (string \<times> pyval) list" where
  "OptionsMarkov_post_init self =
     (case map_of self ''terminal_fate'' of
        None \<Rightarrow> Inl AttributeError
      | Some tf \<Rightarrow>
          (case post_init_fate tf of
             Inl e \<Rightarrow> Inl e
           | Inr fate \<Rightarrow> Inr (AList.update ''terminal_fate'' fate self)))"

text \<open>
  Constructing one of the eleven sub-groups, \<open>cls(**kwargs)\<close>: the generated
  \<open>__init__\<close>, then \<open>__post_init__\<close>, which only \<open>OptionsMarkov\<close> defines.
\<close>

definition group_new :: "string \<Rightarrow> cls \<Rightarrow> (pyval \<times> pyval) list \<Rightarrow> py_error + pyval" where
  "group_new lpy c kwargs =
     (case dataclass_init (declared lpy c) kwargs of
        Inl e \<Rightarrow> Inl e
      | Inr self \<Rightarrow>
          if c = OptionsMarkov
          then (case OptionsMarkov_post_init self of
                  Inl e \<Rightarrow> Inl e
                | Inr self' \<Rightarrow> Inr (PGroup c self'))
          else Inr (PGroup c self))"

text \<open>
  \<open>_make_dataclass(cls, data_or_cls)\<close>.  The test is \<open>type(data_or_cls) is dict\<close>: only
  a mapping whose type is \<open>dict\<close> itself is coerced; an instance of a subclass of
  \<open>dict\<close> is returned as it is, like every other value.
\<close>

definition make_dataclass :: "string \<Rightarrow> cls \<Rightarrow> pyval \<Rightarrow> py_error + pyval" where
  "make_dataclass lpy c data_or_cls =
     (case data_or_cls of
        PDict d \<Rightarrow> group_new lpy c d
      | _ \<Rightarrow> Inr data_or_cls)"

section \<open>The configuration root: class \<open>Options\<close>\<close>

text \<open>
  The fields of \<open>Options\<close> with the class whose constructor is the field's default
  factory, in declaration order.  \<open>Options.__post_init__\<close> names the same classes, in
  the same order.
\<close>

definition Options_fields :: "(string \<times> cls) list" where
  "Options_fields =
     [(''general'', OptionsGeneral),
      (''input'', OptionsInput),
      (''output'', OptionsOutput),
      (''events'', OptionsEvents),
      (''tree'', OptionsTree),
      (''wood'', OptionsWood),
      (''internode'', OptionsInternode),
      (''apex'', OptionsApex),
      (''markov'', OptionsMarkov),
      (''fruit'', OptionsFruit),
      (''leaf'', OptionsLeaf)]"

text \<open>
  The generated \<open>Options.__init__\<close>: a field takes the keyword's value, or what its
  default factory returns, which is the sub-group constructed with no argument.
\<close>

fun Options_init ::
  "string \<Rightarrow> (string \<times> cls) list \<Rightarrow> (pyval \<times> pyval) list
     \<Rightarrow> py_error + (string \<times> pyval) list" where
  "Options_init lpy [] kwargs = Inr []"
| "Options_init lpy ((n, c) # rest) kwargs =
     (case (case map_of kwargs (PStr n) of
              Some v \<Rightarrow> Inr v
            | None \<Rightarrow> group_new lpy c []) of
        Inl e \<Rightarrow> Inl e
      | Inr v \<Rightarrow>
          (case Options_init lpy rest kwargs of
             Inl e \<Rightarrow> Inl e
           | Inr self \<Rightarrow> Inr ((n, v) # self)))"

text \<open>
  \<open>Options.__post_init__\<close>: for each field in turn,
  \<open>self.name = _make_dataclass(Class, self.name)\<close>.
\<close>

fun Options_post_init ::
  "string \<Rightarrow> (string \<times> cls) list \<Rightarrow> (string \<times> pyval) list
     \<Rightarrow> py_error + (string \<times> pyval) list" where
  "Options_post_init lpy [] self = Inr self"
| "Options_post_init lpy ((n, c) # rest) self =
     (case map_of self n of
        None \<Rightarrow> Inl AttributeError
      | Some v \<Rightarrow>
          (case make_dataclass lpy c v of
             Inl e \<Rightarrow> Inl e
           | Inr g \<Rightarrow> Options_post_init lpy rest (AList.update n g self)))"

text \<open>Constructing the root, \<open>Options(**kwargs)\<close>.\<close>

definition Options_new :: "string \<Rightarrow> (pyval \<times> pyval) list \<Rightarrow> py_error + pyval" where
  "Options_new lpy kwargs =
     (if kwargs_ok (map fst Options_fields) kwargs
      then (case Options_init lpy Options_fields kwargs of
              Inl e \<Rightarrow> Inl e
            | Inr self \<Rightarrow>
                (case Options_post_init lpy Options_fields self of
                   Inl e \<Rightarrow> Inl e
                 | Inr self' \<Rightarrow> Inr (POptions self')))
      else Inl TypeError)"

text \<open>
  \<open>Options.dumps\<close> and \<open>Options.loads\<close>.  The text codec is the third-party \<open>toml\<close>
  package, which is not part of the repository: its two functions are parameters, over
  any type of texts.  \<open>Options(**parsed)\<close> takes the items of the parsed mapping as
  keyword arguments and is a \<open>TypeError\<close> when the parsed value is not a mapping.
\<close>

definition Options_dumps :: "(pyval \<Rightarrow> py_error + 'text) \<Rightarrow> pyval \<Rightarrow> py_error + 'text" where
  "Options_dumps toml_dumps self =
     (case dc_asdict self of Inl e \<Rightarrow> Inl e | Inr d \<Rightarrow> toml_dumps d)"

definition Options_loads ::
  "string \<Rightarrow> ('text \<Rightarrow> py_error + pyval) \<Rightarrow> 'text \<Rightarrow> py_error + pyval" where
  "Options_loads lpy toml_loads options =
     (case toml_loads options of
        Inl e \<Rightarrow> Inl e
      | Inr parsed \<Rightarrow>
          (case py_items parsed of
             Inl e \<Rightarrow> Inl TypeError
           | Inr kwargs \<Rightarrow> Options_new lpy kwargs))"

text \<open>Reading an attribute of a dataclass instance.\<close>

fun py_getattr :: "pyval \<Rightarrow> string \<Rightarrow> pyval option" where
  "py_getattr (PGroup c fs) n = map_of fs n"
| "py_getattr (POptions fs) n = map_of fs n"
| "py_getattr v n = None"

section \<open>Notions used in the statements\<close>




text \<open>The values on which \<open>py_items\<close> does not raise.\<close>

fun has_items :: "pyval \<Rightarrow> bool" where
  "has_items (PDict kvs) = True"
| "has_items (PSubDict kvs) = True"
| "has_items (PGroup c fs) = True"
| "has_items (POptions fs) = True"
| "has_items v = False"

text \<open>Plain data: a value with no dataclass instance anywhere inside.\<close>

fun plain :: "pyval \<Rightarrow> bool" where
  "plain (PGroup c fs) = False"
| "plain (POptions fs) = False"
| "plain (PList xs) = list_all plain xs"
| "plain (PTuple xs) = list_all plain xs"
| "plain (PDict kvs) = list_all (\<lambda>(k, v). plain k \<and> plain v) kvs"
| "plain (PSubDict kvs) = list_all (\<lambda>(k, v). plain k \<and> plain v) kvs"
| "plain v = True"



text \<open>
  The specification's construction of one sub-group from its entry, for the entries
  above: an absent entry gives the all-defaults group, a raw mapping of type \<open>dict\<close>
  is coerced by the group's own construction, anything else (a ready-made instance)
  is used unmodified.
\<close>

fun construct_spec :: "string \<Rightarrow> cls \<Rightarrow> pyval option \<Rightarrow> py_error + pyval" where
  "construct_spec lpy c None = group_new lpy c []"
| "construct_spec lpy c (Some (PDict d)) = group_new lpy c d"
| "construct_spec lpy c (Some v) = Inr v"

text \<open>
  The declared field names of the class of a dataclass instance (they do not depend
  on the install path), and the instances that hold exactly the declared fields of
  their class, in declaration order (what the constructors build).
\<close>

fun declared_names :: "pyval \<Rightarrow> string list" where
  "declared_names (PGroup c fs) = map fst (declared [] c)"
| "declared_names (POptions fs) = map fst Options_fields"
| "declared_names v = []"

fun is_instance :: "pyval \<Rightarrow> bool" where
  "is_instance (PGroup c fs) = (map fst fs = map fst (declared [] c))"
| "is_instance (POptions fs) = (map fst fs = map fst Options_fields)"
| "is_instance v = False"

text \<open>The root whose eleven sub-groups are all-defaults groups.\<close>

definition default_options :: "string \<Rightarrow> pyval" where
  "default_options lpy = POptions (map (\<lambda>(n, c). (n, PGroup c (declared lpy c))) Options_fields)"


section \<open>Properties of the growth-rate engine\<close>

lemma growth_rate_init:
  "growth_rate (Internode_init mn ep pl mx) z =
     py_truediv (terminal_length_spec mx z) ep"
  by (simp add: growth_rate_def Internode_init_def terminal_length_spec_def
      zone_fraction_spec_def)

text \<open>
  Claim C9.  Two internodes built with the same elongation period and maximum length,
  whatever their minimum lengths and plastochrons, give the same result of
  \<open>growth_rate\<close> for the none sentinel and for every string (the same velocity, or the
  same exception when the period is zero).
\<close>

theorem growth_rate_ignores_min_length_plastochron:
  "growth_rate (Internode_init mn ep pl mx) z = growth_rate (Internode_init mn' ep pl' mx) z"
  by (simp add: growth_rate_init)



section \<open>Properties of the growth-rate engine in binary64\<close>









lemma growth_rate_float_init:
  "growth_rate_float (Internode_init_float mn ep pl mx) z =
     py_truediv_float (terminal_length_float mx z) ep"
  by (simp add: growth_rate_float_def Internode_init_float_def terminal_length_float_def
      zone_fraction_float_def)












text \<open>
  The relational properties on floats: \<open>growth_rate\<close> does not read the minimum length
  or the plastochron, and the zones that share a constant share their result.
\<close>

lemma growth_rate_float_ignores_min_length_plastochron:
  "growth_rate_float (Internode_init_float mn ep pl mx) z
     = growth_rate_float (Internode_init_float mn' ep pl' mx) z"
  by (simp add: growth_rate_float_init)

lemma growth_rate_float_zone_equalities:
  "growth_rate_float (Internode_init_float mn ep pl mx) None
     = growth_rate_float (Internode_init_float mn ep pl mx) (Some ''diffuse'')
   \<and> growth_rate_float (Internode_init_float mn ep pl mx) (Some ''small'')
     = growth_rate_float (Internode_init_float mn ep pl mx) (Some ''floral'')
   \<and> growth_rate_float (Internode_init_float mn ep pl mx) (Some ''dormant_start'')
     = growth_rate_float (Internode_init_float mn ep pl mx) (Some ''dormant_end'')"
  by (simp add: growth_rate_float_init terminal_length_float_def zone_fraction_float_def)

section \<open>Properties of the fate-table normalization\<close>














lemma fate_items_tuple_keys:
  "(\<forall>K \<in> fst ` set fate. \<exists>xs. K = PTuple xs) \<Longrightarrow>
   (\<forall>K \<in> fst ` set (fate_items i kvs fate). \<exists>xs. K = PTuple xs)"
proof (induction kvs arbitrary: fate)
  case Nil
  then show ?case by simp
next
  case (Cons kv kvs)
  obtain k v where kv: "kv = (k, v)" by (cases kv)
  have "\<forall>K \<in> fst ` set (dict_setitem fate (PTuple [PInt (i + 1), k]) v). \<exists>xs. K = PTuple xs"
    using Cons.prems by (auto simp add: dict_setitem_def dom_update)
  from Cons.IH [OF this] show ?case
    by (simp add: kv)
qed

lemma fate_loop_tuple_keys:
  "fate_loop i its fate = Inr fate' \<Longrightarrow>
   (\<forall>K \<in> fst ` set fate. \<exists>xs. K = PTuple xs) \<Longrightarrow>
   (\<forall>K \<in> fst ` set fate'. \<exists>xs. K = PTuple xs)"
proof (induction its arbitrary: i fate)
  case Nil
  then show ?case by simp
next
  case (Cons item its)
  from Cons.prems(1) obtain kvs where kvs: "py_items item = Inr kvs"
    and run: "fate_loop (i + 1) its (fate_items i kvs fate) = Inr fate'"
    by (auto split: sum.splits)
  have "\<forall>K \<in> fst ` set (fate_items i kvs fate). \<exists>xs. K = PTuple xs"
    using Cons.prems(2) by (rule fate_items_tuple_keys)
  from Cons.IH [OF run this] show ?case .
qed

text \<open>
  Claim C7.  The normalization is not idempotent: run again on a non-empty table that
  it produced, it raises (\<open>AttributeError\<close>: the keys it visits are tuples, which have
  no \<open>items\<close>) and does not return the table.
\<close>

theorem fate_normalization_not_idempotent:
  assumes "post_init_fate raw = Inr (PDict fate)" and "fate \<noteq> []"
  shows "post_init_fate (PDict fate) = Inl AttributeError"
proof -
  from assms(1) obtain its where "fate_loop 0 its [] = Inr fate"
    by (auto simp add: post_init_fate_def split: if_splits sum.splits)
  then have keys: "\<forall>K \<in> fst ` set fate. \<exists>xs. K = PTuple xs"
    by (rule fate_loop_tuple_keys) simp
  from assms(2) obtain K v rest where fate: "fate = (K, v) # rest"
    by (cases fate) auto
  with keys obtain xs where "K = PTuple xs" by auto
  then show ?thesis
    by (simp add: post_init_fate_def fate)
qed

theorem fate_normalization_not_idempotent_witness:
  "post_init_fate (PList [PDict [(PStr ''A'', PList [PInt 1, PInt 2])]])
     = Inr (PDict [(PTuple [PInt 1, PStr ''A''], PList [PInt 1, PInt 2])])
   \<and> [(PTuple [PInt 1, PStr ''A''], PList [PInt 1, PInt 2])] \<noteq> []
   \<and> post_init_fate (PDict [(PTuple [PInt 1, PStr ''A''], PList [PInt 1, PInt 2])])
     = Inl AttributeError"
proof -
  have run: "post_init_fate (PList [PDict [(PStr ''A'', PList [PInt 1, PInt 2])]])
     = Inr (PDict [(PTuple [PInt 1, PStr ''A''], PList [PInt 1, PInt 2])])"
    by (simp add: post_init_fate_def dict_setitem_def)
  have ne: "[(PTuple [PInt 1, PStr ''A''], PList [PInt 1, PInt 2])] \<noteq> []"
    by simp
  from run ne fate_normalization_not_idempotent [OF run ne] show ?thesis
    by blast
qed

lemma py_items_raises:
  "\<not> has_items x \<Longrightarrow> py_items x = Inl AttributeError"
  by (cases x) simp_all

lemma py_items_error:
  "py_items x = Inl e \<Longrightarrow> e = AttributeError"
  by (cases x) simp_all

lemma fate_loop_raises:
  "x \<in> set xs \<Longrightarrow> \<not> has_items x \<Longrightarrow> fate_loop i xs fate = Inl AttributeError"
proof (induction xs arbitrary: i fate)
  case Nil
  then show ?case by simp
next
  case (Cons a xs)
  show ?case
  proof (cases "py_items a")
    case (Inl e)
    then show ?thesis using py_items_error by simp
  next
    case (Inr kvs)
    then have "has_items a" using py_items_raises by fastforce
    with Cons.prems have "x \<in> set xs" by auto
    from Cons.IH [OF this Cons.prems(2)] Inr show ?thesis by simp
  qed
qed

lemma py_iter_error:
  "py_iter x = Inl e \<Longrightarrow> e = TypeError"
  by (cases x) simp_all

lemma declared_markov_names:
  "map fst (declared lpy OptionsMarkov) = [''maximum_length'', ''minimum_length'', ''terminal_fate'']"
  by simp

text \<open>
  The markov group that the constructor returns holds, in \<open>terminal_fate\<close>, the fate
  computed from the keyword's value, or from the empty dict when there is none.
\<close>

lemma group_new_markov:
  assumes "kwargs_ok (map fst (declared lpy OptionsMarkov)) kwargs"
  shows "group_new lpy OptionsMarkov kwargs =
     (case post_init_fate (case map_of kwargs (PStr ''terminal_fate'') of
                             Some v \<Rightarrow> v | None \<Rightarrow> PDict []) of
        Inl e \<Rightarrow> Inl e
      | Inr fate \<Rightarrow>
          Inr (PGroup OptionsMarkov
            [(''maximum_length'', case map_of kwargs (PStr ''maximum_length'') of
                                    Some v \<Rightarrow> v | None \<Rightarrow> PInt 70),
             (''minimum_length'', case map_of kwargs (PStr ''minimum_length'') of
                                    Some v \<Rightarrow> v | None \<Rightarrow> PInt 4),
             (''terminal_fate'', fate)]))"
  using assms
  by (simp add: group_new_def dataclass_init_def OptionsMarkov_post_init_def
      split: sum.splits)

text \<open>
  Claim C5, as the code has it.  When the raw fate table is iterable and some entry of
  it has no \<open>items()\<close> (it is neither a dict nor a parameter group), constructing the
  markov group raises \<open>AttributeError\<close>; when the raw table is neither \<open>None\<close> nor
  iterable, it raises \<open>TypeError\<close>.  These are the type mismatches met while
  iterating; the code defines no error class of its own for them.  The values found
  under the labels are not inspected.
\<close>

theorem markov_rejects_non_mapping_entry:
  assumes "kwargs_ok (map fst (declared lpy OptionsMarkov)) kwargs"
    and "map_of kwargs (PStr ''terminal_fate'') = Some raw"
  shows "(py_iter raw = Inr xs \<and> x \<in> set xs \<and> \<not> has_items x
            \<longrightarrow> group_new lpy OptionsMarkov kwargs = Inl AttributeError)
       \<and> (raw \<noteq> PNone \<and> py_iter raw = Inl e
            \<longrightarrow> group_new lpy OptionsMarkov kwargs = Inl TypeError)"
proof -
  have a: "group_new lpy OptionsMarkov kwargs = Inl AttributeError"
    if "py_iter raw = Inr xs" "x \<in> set xs" "\<not> has_items x"
  proof -
    from that(1) have "raw \<noteq> PNone" by auto
    moreover have "fate_loop 0 xs [] = Inl AttributeError"
      using that(2,3) by (rule fate_loop_raises)
    ultimately have "post_init_fate raw = Inl AttributeError"
      using that(1) by (simp add: post_init_fate_def)
    then show ?thesis
      using assms by (simp add: group_new_markov)
  qed
  have b: "group_new lpy OptionsMarkov kwargs = Inl TypeError"
    if "raw \<noteq> PNone" "py_iter raw = Inl e"
  proof -
    from that(2) have "e = TypeError" by (rule py_iter_error)
    with that have "post_init_fate raw = Inl TypeError"
      by (simp add: post_init_fate_def)
    then show ?thesis
      using assms by (simp add: group_new_markov)
  qed
  from a b show ?thesis by blast
qed

theorem markov_rejects_non_mapping_entry_witness:
  "kwargs_ok (map fst (declared ''lpy'' OptionsMarkov))
     [(PStr ''terminal_fate'', PList [PDict [(PStr ''A'', PList [PInt 1])], PInt 5])]
   \<and> py_iter (PList [PDict [(PStr ''A'', PList [PInt 1])], PInt 5])
       = Inr [PDict [(PStr ''A'', PList [PInt 1])], PInt 5]
   \<and> \<not> has_items (PInt 5)
   \<and> group_new ''lpy'' OptionsMarkov
       [(PStr ''terminal_fate'', PList [PDict [(PStr ''A'', PList [PInt 1])], PInt 5])]
       = Inl AttributeError"
proof -
  let ?raw = "PList [PDict [(PStr ''A'', PList [PInt 1])], PInt 5]"
  have ok: "kwargs_ok (map fst (declared ''lpy'' OptionsMarkov)) [(PStr ''terminal_fate'', ?raw)]"
    by (simp add: kwargs_ok_def)
  have sup: "map_of [(PStr ''terminal_fate'', ?raw)] (PStr ''terminal_fate'') = Some ?raw"
    by simp
  have it: "py_iter ?raw = Inr [PDict [(PStr ''A'', PList [PInt 1])], PInt 5]"
    by simp
  have mem: "PInt 5 \<in> set [PDict [(PStr ''A'', PList [PInt 1])], PInt 5]"
    by simp
  have no: "\<not> has_items (PInt 5)"
    by simp
  from markov_rejects_non_mapping_entry [OF ok sup, of _ "PInt 5"] it mem no
  have "group_new ''lpy'' OptionsMarkov [(PStr ''terminal_fate'', ?raw)] = Inl AttributeError"
    by blast
  with ok it no show ?thesis by blast
qed

text \<open>
  Claim C5 as stated fails on a value that is not a list of integers: the table
  \<open>[{"A": "high"}]\<close> is accepted and the string is stored under \<open>(1, "A")\<close>.
\<close>

theorem markov_accepts_malformed_value:
  "group_new ''lpy'' OptionsMarkov
     [(PStr ''terminal_fate'', PList [PDict [(PStr ''A'', PStr ''high'')]])]
   = Inr (PGroup OptionsMarkov
       [(''maximum_length'', PInt 70),
        (''minimum_length'', PInt 4),
        (''terminal_fate'', PDict [(PTuple [PInt 1, PStr ''A''], PStr ''high'')])])"
  by (simp add: group_new_def dataclass_init_def kwargs_ok_def OptionsMarkov_post_init_def
      post_init_fate_def dict_setitem_def)

section \<open>Properties of the configuration root\<close>

lemma plain_asdict: "plain v \<Longrightarrow> asdict_inner v = v"
proof (induction v)
  case (PList xs)
  then show ?case by (simp add: list_all_iff map_idI)
next
  case (PTuple xs)
  then show ?case by (simp add: list_all_iff map_idI)
next
  case (PDict kvs)
  have "map (\<lambda>(k, v). (asdict_inner k, asdict_inner v)) kvs = kvs"
  proof (rule map_idI)
    fix p assume p: "p \<in> set kvs"
    obtain k v where kv: "p = (k, v)" by (cases p)
    from p PDict.prems have "plain k" "plain v"
      by (auto simp add: kv list_all_iff)
    moreover have "k \<in> Basic_BNFs.fsts p" "v \<in> Basic_BNFs.snds p"
      by (simp_all add: kv)
    ultimately have "asdict_inner k = k" "asdict_inner v = v"
      using PDict.IH p by blast+
    then show "(case p of (k, v) \<Rightarrow> (asdict_inner k, asdict_inner v)) = p"
      by (simp add: kv)
  qed
  then show ?case by simp
next
  case (PSubDict kvs)
  have "map (\<lambda>(k, v). (asdict_inner k, asdict_inner v)) kvs = kvs"
  proof (rule map_idI)
    fix p assume p: "p \<in> set kvs"
    obtain k v where kv: "p = (k, v)" by (cases p)
    from p PSubDict.prems have "plain k" "plain v"
      by (auto simp add: kv list_all_iff)
    moreover have "k \<in> Basic_BNFs.fsts p" "v \<in> Basic_BNFs.snds p"
      by (simp_all add: kv)
    ultimately have "asdict_inner k = k" "asdict_inner v = v"
      using PSubDict.IH p by blast+
    then show "(case p of (k, v) \<Rightarrow> (asdict_inner k, asdict_inner v)) = p"
      by (simp add: kv)
  qed
  then show ?case by simp
qed simp_all

lemma group_asdict_differs: "asdict_inner (PGroup c fs) \<noteq> PGroup c fs"
  by simp

lemma map_of_fields:
  "map_of (map (\<lambda>(n, v). (PStr n, f v)) fs) (PStr n) = map_option f (map_of fs n)"
  by (induction fs) auto

lemma map_of_fields_other:
  "key \<notin> PStr ` fst ` set fs \<Longrightarrow> map_of (map (\<lambda>(n, v). (PStr n, f v)) fs) key = None"
  by (induction fs) auto

lemma alist_eqI:
  "map fst xs = map fst ys \<Longrightarrow> distinct (map fst xs) \<Longrightarrow>
   (\<And>k. k \<in> set (map fst xs) \<Longrightarrow> map_of xs k = map_of ys k) \<Longrightarrow> xs = ys"
proof (induction xs arbitrary: ys)
  case Nil
  then show ?case by simp
next
  case (Cons x xs)
  from Cons.prems(1) obtain y ys' where ys: "ys = y # ys'" by (cases ys) auto
  obtain k v where x: "x = (k, v)" by (cases x)
  obtain k' v' where y: "y = (k', v')" by (cases y)
  from Cons.prems(1) have kk: "k' = k" and keys: "map fst xs = map fst ys'"
    by (simp_all add: ys x y)
  from Cons.prems(3) [of k] have vv: "v' = v"
    by (simp add: ys x y kk)
  have d: "distinct (map fst xs)" and nk: "k \<notin> set (map fst xs)"
    using Cons.prems(2) by (simp_all add: x)
  have "map_of xs j = map_of ys' j" if "j \<in> set (map fst xs)" for j
  proof -
    from that nk have "j \<noteq> k" by auto
    with Cons.prems(3) [of j] that show ?thesis
      by (simp add: ys x y kk)
  qed
  with Cons.IH [OF keys d] have "xs = ys'" by blast
  then show ?case by (simp add: ys x y kk vv)
qed

lemma declared_distinct: "distinct (map fst (declared lpy c))"
  by (cases c) simp_all

lemma Options_fields_distinct: "distinct (map fst Options_fields)"
  by (simp add: Options_fields_def)

lemma dataclass_init_no_kwargs: "dataclass_init decl [] = Inr decl"
  by (simp add: dataclass_init_def kwargs_ok_def case_prod_unfold)

lemma post_init_fate_empty: "post_init_fate (PDict []) = Inr (PDict [])"
  by (simp add: post_init_fate_def)

lemma group_new_default: "group_new lpy c [] = Inr (PGroup c (declared lpy c))"
  by (cases c)
    (simp_all add: group_new_def dataclass_init_no_kwargs OptionsMarkov_post_init_def
      post_init_fate_empty)




lemma Options_init_fields:
  "Options_init lpy flds kwargs =
     Inr (map (\<lambda>(n, c). (n, case map_of kwargs (PStr n) of
                               Some v \<Rightarrow> v | None \<Rightarrow> PGroup c (declared lpy c))) flds)"
  by (induction flds) (auto simp add: group_new_default split: option.splits)

lemma map_of_init_fields:
  "(n, c) \<in> set flds \<Longrightarrow> distinct (map fst flds) \<Longrightarrow>
   map_of (map (\<lambda>(n, c). (n, f n c)) flds) n = Some (f n c)"
  by (induction flds) (auto simp add: rev_image_eqI)

lemma Options_post_init_result:
  "distinct (map fst flds) \<Longrightarrow> Options_post_init lpy flds self = Inr self' \<Longrightarrow>
   map fst self' = map fst self
   \<and> (\<forall>n c. (n, c) \<in> set flds \<longrightarrow>
        (\<exists>v g. map_of self n = Some v \<and> make_dataclass lpy c v = Inr g
           \<and> map_of self' n = Some g))
   \<and> (\<forall>n. n \<notin> fst ` set flds \<longrightarrow> map_of self' n = map_of self n)"
proof (induction flds arbitrary: self)
  case Nil
  then show ?case by simp
next
  case (Cons f flds)
  obtain n0 c0 where f: "f = (n0, c0)" by (cases f)
  from Cons.prems(2) obtain v0 g0 where v0: "map_of self n0 = Some v0"
    and g0: "make_dataclass lpy c0 v0 = Inr g0"
    and run: "Options_post_init lpy flds (AList.update n0 g0 self) = Inr self'"
    by (auto simp add: f split: option.splits sum.splits)
  have d: "distinct (map fst flds)" and fresh: "n0 \<notin> fst ` set flds"
    using Cons.prems(1) by (simp_all add: f)
  from Cons.IH [OF d run]
  have names: "map fst self' = map fst (AList.update n0 g0 self)"
    and coerced: "\<And>n c. (n, c) \<in> set flds \<Longrightarrow>
        \<exists>v g. map_of (AList.update n0 g0 self) n = Some v \<and> make_dataclass lpy c v = Inr g
           \<and> map_of self' n = Some g"
    and kept: "\<And>n. n \<notin> fst ` set flds \<Longrightarrow> map_of self' n = map_of (AList.update n0 g0 self) n"
    by blast+
  from v0 have "n0 \<in> set (map fst self)"
    by (metis map_of_eq_None_iff option.distinct(1) set_map)
  then have 1: "map fst self' = map fst self"
    using names by (simp add: update_keys)
  have 2: "\<exists>v g. map_of self n = Some v \<and> make_dataclass lpy c v = Inr g
           \<and> map_of self' n = Some g" if "(n, c) \<in> set (f # flds)" for n c
  proof (cases "(n, c) = (n0, c0)")
    case True
    with kept [OF fresh] v0 g0 show ?thesis
      by (simp add: update_conv')
  next
    case False
    with that have mem: "(n, c) \<in> set flds" by (auto simp add: f)
    with fresh have "n \<noteq> n0" by force
    with coerced [OF mem] show ?thesis
      by (simp add: update_conv')
  qed
  have 3: "map_of self' n = map_of self n" if "n \<notin> fst ` set (f # flds)" for n
  proof -
    from that have "n \<notin> fst ` set flds" "n \<noteq> n0" by (simp_all add: f)
    with kept [of n] show ?thesis by (simp add: update_conv')
  qed
  from 1 2 3 show ?case by blast
qed

lemma Options_post_init_succeeds:
  "distinct (map fst flds) \<Longrightarrow>
   (\<And>n c. (n, c) \<in> set flds \<Longrightarrow>
      \<exists>v g. map_of self n = Some v \<and> make_dataclass lpy c v = Inr g) \<Longrightarrow>
   \<exists>self'. Options_post_init lpy flds self = Inr self'"
proof (induction flds arbitrary: self)
  case Nil
  then show ?case by simp
next
  case (Cons f flds)
  obtain n0 c0 where f: "f = (n0, c0)" by (cases f)
  from Cons.prems(2) [of n0 c0] obtain v0 g0 where v0: "map_of self n0 = Some v0"
    and g0: "make_dataclass lpy c0 v0 = Inr g0"
    by (auto simp add: f)
  have d: "distinct (map fst flds)" and fresh: "n0 \<notin> fst ` set flds"
    using Cons.prems(1) by (simp_all add: f)
  have "\<exists>v g. map_of (AList.update n0 g0 self) n = Some v \<and> make_dataclass lpy c v = Inr g"
    if mem: "(n, c) \<in> set flds" for n c
  proof -
    from mem fresh have "n \<noteq> n0" by force
    with Cons.prems(2) [of n c] mem show ?thesis
      by (simp add: update_conv')
  qed
  with Cons.IH [OF d] obtain self' where
    "Options_post_init lpy flds (AList.update n0 g0 self) = Inr self'" by blast
  then show ?case
    by (simp add: f v0 g0)
qed

lemma make_dataclass_construct:
  "make_dataclass lpy c (case entry of Some v \<Rightarrow> v | None \<Rightarrow> PGroup c (declared lpy c))
     = construct_spec lpy c entry"
proof (cases entry)
  case None
  then show ?thesis by (simp add: make_dataclass_def group_new_default)
next
  case (Some v)
  then show ?thesis by (cases v) (simp_all add: make_dataclass_def)
qed

lemma Options_new_attributes:
  assumes new: "Options_new lpy kwargs = Inr opts"
  shows "\<exists>self. opts = POptions self \<and> map fst self = map fst Options_fields
      \<and> (\<forall>n c. (n, c) \<in> set Options_fields \<longrightarrow>
           (\<exists>g. construct_spec lpy c (map_of kwargs (PStr n)) = Inr g \<and> map_of self n = Some g))"
proof -
  let ?init = "map (\<lambda>(n, c). (n, case map_of kwargs (PStr n) of
                               Some v \<Rightarrow> v | None \<Rightarrow> PGroup c (declared lpy c))) Options_fields"
  from new obtain self where post: "Options_post_init lpy Options_fields ?init = Inr self"
    and opts: "opts = POptions self"
    by (auto simp add: Options_new_def Options_init_fields split: if_splits sum.splits)
  note res = Options_post_init_result [OF Options_fields_distinct post]
  have names: "map fst self = map fst Options_fields"
    using res by (simp add: case_prod_unfold comp_def)
  have "\<exists>g. construct_spec lpy c (map_of kwargs (PStr n)) = Inr g \<and> map_of self n = Some g"
    if mem: "(n, c) \<in> set Options_fields" for n c
  proof -
    from res mem obtain v g where v: "map_of ?init n = Some v"
      and g: "make_dataclass lpy c v = Inr g" and at: "map_of self n = Some g"
      by blast
    have "map_of ?init n = Some (case map_of kwargs (PStr n) of
                               Some v \<Rightarrow> v | None \<Rightarrow> PGroup c (declared lpy c))"
      using mem Options_fields_distinct by (rule map_of_init_fields)
    with v g have "construct_spec lpy c (map_of kwargs (PStr n)) = Inr g"
      by (simp add: make_dataclass_construct [symmetric])
    with at show ?thesis by blast
  qed
  with opts names show ?thesis by blast
qed



text \<open>
  Claim C8.  When \<open>Options\<close> is constructed with a raw mapping for one sub-group only,
  every other sub-group attribute is the all-defaults instance of its class.
\<close>

theorem options_siblings_keep_defaults:
  assumes "Options_new lpy [(PStr n, PDict d)] = Inr opts"
    and "(m, c) \<in> set Options_fields"
    and "m \<noteq> n"
  shows "\<exists>g. group_new lpy c [] = Inr g \<and> py_getattr opts m = Some g"
proof -
  from Options_new_attributes [OF assms(1)] assms(2) obtain self g
    where opts: "opts = POptions self"
      and g: "construct_spec lpy c (map_of [(PStr n, PDict d)] (PStr m)) = Inr g"
      and at: "map_of self m = Some g"
    by blast
  from g assms(3) have "group_new lpy c [] = Inr g" by simp
  with opts at show ?thesis by simp
qed

text \<open>
  The construction of the root returns whenever the keywords name fields of the root
  and the construction of each sub-group from its entry returns.
\<close>

lemma Options_new_succeeds:
  assumes "kwargs_ok (map fst Options_fields) kwargs"
    and "\<And>n c. (n, c) \<in> set Options_fields \<Longrightarrow>
           \<exists>g. construct_spec lpy c (map_of kwargs (PStr n)) = Inr g"
  shows "\<exists>opts. Options_new lpy kwargs = Inr opts"
proof -
  let ?init = "map (\<lambda>(n, c). (n, case map_of kwargs (PStr n) of
                               Some v \<Rightarrow> v | None \<Rightarrow> PGroup c (declared lpy c))) Options_fields"
  have "\<exists>v g. map_of ?init n = Some v \<and> make_dataclass lpy c v = Inr g"
    if mem: "(n, c) \<in> set Options_fields" for n c
  proof -
    have "map_of ?init n = Some (case map_of kwargs (PStr n) of
                               Some v \<Rightarrow> v | None \<Rightarrow> PGroup c (declared lpy c))"
      using mem Options_fields_distinct by (rule map_of_init_fields)
    with assms(2) [OF mem] show ?thesis
      by (simp add: make_dataclass_construct)
  qed
  with Options_post_init_succeeds [OF Options_fields_distinct]
  obtain self where "Options_post_init lpy Options_fields ?init = Inr self"
    by blast
  then show ?thesis
    using assms(1) by (simp add: Options_new_def Options_init_fields)
qed




lemma internode_example:
  "group_new lpy OptionsInternode [(PStr ''max_length'', v)]
   = Inr (PGroup OptionsInternode
       [(''min_length'', PFloat 0.0001),
        (''elongation_period'', PFloat 10.0),
        (''plastochron'', PFloat 3.0),
        (''max_length'', v)])"
  by (simp add: group_new_def dataclass_init_def kwargs_ok_def)

theorem options_siblings_keep_defaults_witness:
  "\<exists>opts. Options_new ''lpy'' [(PStr ''internode'', PDict [(PStr ''max_length'', PFloat 0.05)])]
       = Inr opts
     \<and> ''apex'' \<noteq> ''internode''
     \<and> py_getattr opts ''apex'' = Some (PGroup OptionsApex (declared ''lpy'' OptionsApex))
     \<and> group_new ''lpy'' OptionsApex [] = Inr (PGroup OptionsApex (declared ''lpy'' OptionsApex))"
proof -
  let ?kw = "[(PStr ''internode'', PDict [(PStr ''max_length'', PFloat 0.05)])]"
  have ok: "kwargs_ok (map fst Options_fields) ?kw"
    by (simp add: kwargs_ok_def Options_fields_def)
  have "\<exists>g. construct_spec ''lpy'' c (map_of ?kw (PStr n)) = Inr g"
    if "(n, c) \<in> set Options_fields" for n c
    using that by (auto simp add: Options_fields_def group_new_default internode_example)
  with ok obtain opts where new: "Options_new ''lpy'' ?kw = Inr opts"
    using Options_new_succeeds by blast
  have a: "(''apex'', OptionsApex) \<in> set Options_fields"
    by (simp add: Options_fields_def)
  have ne: "''apex'' \<noteq> ''internode''"
    by simp
  from options_siblings_keep_defaults [OF new a ne]
  have "py_getattr opts ''apex'' = Some (PGroup OptionsApex (declared ''lpy'' OptionsApex))"
    by (auto simp add: group_new_default)
  with new ne show ?thesis
    by (auto simp add: group_new_default)
qed

section \<open>Field access and loading\<close>

lemma declared_names_lpy: "map fst (declared lpy c) = map fst (declared [] c)"
  by (cases c) simp_all

lemma in_names_map_of:
  "n \<in> set (map fst fs) \<Longrightarrow> \<exists>v. map_of fs n = Some v"
  by (induction fs) auto

lemma getitem_instance:
  "g = PGroup c fs \<or> g = POptions fs \<Longrightarrow>
   OptionsBase_getitem g k =
     dict_getitem (PDict (map (\<lambda>(n, v). (PStr n, asdict_inner v)) fs)) k"
  by (auto simp add: OptionsBase_getitem_def)

text \<open>
  Claim C6, as the code has it.  On a parameter group, read access by a key that is
  not the name of a declared field raises: \<open>KeyError\<close>, or \<open>TypeError\<close> when the key is
  unhashable; no default is returned.  Access by the name of a declared field returns
  the \<open>asdict\<close> export of the field's current value, which is the current value itself
  when that is plain data.
\<close>

theorem getitem_declared_or_error:
  assumes "is_instance g"
  shows "(key \<notin> PStr ` set (declared_names g) \<longrightarrow>
            OptionsBase_getitem g key = Inl (if hashable key then KeyError else TypeError))
       \<and> (n \<in> set (declared_names g) \<longrightarrow>
            (\<exists>v. py_getattr g n = Some v
               \<and> OptionsBase_getitem g (PStr n) = Inr (asdict_inner v)
               \<and> (plain v \<longrightarrow> OptionsBase_getitem g (PStr n) = Inr v)))"
proof -
  from assms obtain c fs where g: "g = PGroup c fs \<or> g = POptions fs"
    and names: "map fst fs = declared_names g"
    by (cases g) auto
  have get: "OptionsBase_getitem g k =
      dict_getitem (PDict (map (\<lambda>(n, v). (PStr n, asdict_inner v)) fs)) k" for k
    using g by (rule getitem_instance)
  have attr: "py_getattr g m = map_of fs m" for m
    using g by auto
  have a: "OptionsBase_getitem g key = Inl (if hashable key then KeyError else TypeError)"
    if "key \<notin> PStr ` set (declared_names g)"
  proof -
    from that names have "key \<notin> PStr ` fst ` set fs"
      by (metis set_map)
    then have "map_of (map (\<lambda>(n, v). (PStr n, asdict_inner v)) fs) key = None"
      by (rule map_of_fields_other)
    then show ?thesis by (simp add: get)
  qed
  have b: "\<exists>v. py_getattr g n = Some v
               \<and> OptionsBase_getitem g (PStr n) = Inr (asdict_inner v)
               \<and> (plain v \<longrightarrow> OptionsBase_getitem g (PStr n) = Inr v)"
    if "n \<in> set (declared_names g)"
  proof -
    from that names have "n \<in> set (map fst fs)" by simp
    then obtain v where v: "map_of fs n = Some v"
      using in_names_map_of by fastforce
    then have "OptionsBase_getitem g (PStr n) = Inr (asdict_inner v)"
      by (simp add: get map_of_fields)
    with v show ?thesis
      by (auto simp add: attr plain_asdict)
  qed
  from a b show ?thesis by blast
qed

theorem getitem_declared_or_error_witness:
  "is_instance (PGroup OptionsApex (declared ''lpy'' OptionsApex))
   \<and> PStr ''size'' \<notin> PStr ` set (declared_names (PGroup OptionsApex (declared ''lpy'' OptionsApex)))
   \<and> OptionsBase_getitem (PGroup OptionsApex (declared ''lpy'' OptionsApex)) (PStr ''size'')
       = Inl KeyError
   \<and> ''minimum_size'' \<in> set (declared_names (PGroup OptionsApex (declared ''lpy'' OptionsApex)))
   \<and> OptionsBase_getitem (PGroup OptionsApex (declared ''lpy'' OptionsApex)) (PStr ''minimum_size'')
       = Inr (PFloat 0.00075)"
proof -
  let ?g = "PGroup OptionsApex (declared ''lpy'' OptionsApex)"
  have inst: "is_instance ?g" by simp
  have no: "PStr ''size'' \<notin> PStr ` set (declared_names ?g)" by simp
  have yes: "''minimum_size'' \<in> set (declared_names ?g)" by simp
  have at: "py_getattr ?g ''minimum_size'' = Some (PFloat 0.00075)" by simp
  from getitem_declared_or_error [OF inst, of "PStr ''size''" "''minimum_size''"] no yes at
  have "OptionsBase_getitem ?g (PStr ''size'') = Inl KeyError
    \<and> OptionsBase_getitem ?g (PStr ''minimum_size'') = Inr (PFloat 0.00075)"
    by auto
  with inst no yes show ?thesis by blast
qed

lemma Options_new_default: "Options_new lpy [] = Inr (default_options lpy)"
proof -
  have "kwargs_ok (map fst Options_fields) []" by (simp add: kwargs_ok_def)
  moreover have "\<exists>g. construct_spec lpy c (map_of [] (PStr n)) = Inr g" for n c
    by (simp add: group_new_default)
  ultimately obtain opts where new: "Options_new lpy [] = Inr opts"
    using Options_new_succeeds by blast
  from Options_new_attributes [OF new] obtain self where opts: "opts = POptions self"
    and names: "map fst self = map fst Options_fields"
    and at: "\<And>n c. (n, c) \<in> set Options_fields \<Longrightarrow>
        \<exists>g. construct_spec lpy c (map_of [] (PStr n)) = Inr g \<and> map_of self n = Some g"
    by blast
  let ?d = "map (\<lambda>(n, c). (n, PGroup c (declared lpy c))) Options_fields"
  have "self = ?d"
  proof (rule alist_eqI)
    show "map fst self = map fst ?d"
      using names by (simp add: case_prod_unfold comp_def)
    show "distinct (map fst self)"
      using names Options_fields_distinct by simp
    fix k assume "k \<in> set (map fst self)"
    with names obtain c where mem: "(k, c) \<in> set Options_fields" by auto
    from at [OF mem] have "map_of self k = Some (PGroup c (declared lpy c))"
      by (auto simp add: group_new_default)
    moreover have "map_of ?d k = Some (PGroup c (declared lpy c))"
      using mem Options_fields_distinct by (rule map_of_init_fields)
    ultimately show "map_of self k = map_of ?d k" by simp
  qed
  with new opts show ?thesis by (simp add: default_options_def)
qed

text \<open>
  Claim C6 as stated fails on the root: its fields hold sub-group instances, and
  access by name returns the exported plain mapping of the sub-group, not the
  instance the field holds.
\<close>

theorem getitem_of_root_is_export:
  "Options_new ''lpy'' [] = Inr (default_options ''lpy'')
   \<and> py_getattr (default_options ''lpy'') ''apex''
       = Some (PGroup OptionsApex (declared ''lpy'' OptionsApex))
   \<and> OptionsBase_getitem (default_options ''lpy'') (PStr ''apex'')
       = Inr (PDict [(PStr ''terminal_expansion_rate'', PFloat 0.00002),
                     (PStr ''minimum_size'', PFloat 0.00075),
                     (PStr ''maximum_size'', PFloat 0.003)])
   \<and> OptionsBase_getitem (default_options ''lpy'') (PStr ''apex'')
       \<noteq> Inr (PGroup OptionsApex (declared ''lpy'' OptionsApex))"
proof -
  have 1: "py_getattr (default_options ''lpy'') ''apex''
       = Some (PGroup OptionsApex (declared ''lpy'' OptionsApex))"
    by (simp add: default_options_def Options_fields_def)
  have 2: "OptionsBase_getitem (default_options ''lpy'') (PStr ''apex'')
       = Inr (PDict [(PStr ''terminal_expansion_rate'', PFloat 0.00002),
                     (PStr ''minimum_size'', PFloat 0.00075),
                     (PStr ''maximum_size'', PFloat 0.003)])"
    by (simp add: default_options_def Options_fields_def OptionsBase_getitem_def)
  from 1 2 Options_new_default [of "''lpy''"] show ?thesis by simp
qed

lemma post_init_fate_mapping_raises:
  "\<not> has_items k \<Longrightarrow> post_init_fate (PDict ((k, v) # rest)) = Inl AttributeError"
proof -
  assume "\<not> has_items k"
  then have "fate_loop 0 (k # map fst rest) [] = Inl AttributeError"
    by (intro fate_loop_raises [of k]) simp_all
  then show ?thesis
    by (simp add: post_init_fate_def)
qed

lemma group_new_markov_mapping_raises:
  assumes "map_of m (PStr ''terminal_fate'') = Some (PDict ((k, v) # rest))"
    and "\<not> has_items k"
  shows "\<exists>e. group_new lpy OptionsMarkov m = Inl e"
proof (cases "kwargs_ok (map fst (declared lpy OptionsMarkov)) m")
  case True
  then show ?thesis
    using assms by (simp add: group_new_markov post_init_fate_mapping_raises)
next
  case False
  then show ?thesis
    by (simp add: group_new_def dataclass_init_def)
qed

text \<open>
  Whatever the codec does: when the parsed text carries, for the fate table, a
  non-empty mapping whose first key has no \<open>items()\<close> (a string, as every key of the
  text format is, or a tuple), \<open>Options.loads\<close> raises.
\<close>

lemma loads_rejects_fate_mapping:
  assumes "toml_loads text = Inr (PDict kwargs)"
    and "map_of kwargs (PStr ''markov'') = Some (PDict m)"
    and "map_of m (PStr ''terminal_fate'') = Some (PDict ((k, v) # rest))"
    and "\<not> has_items k"
  shows "\<exists>e. Options_loads lpy toml_loads text = Inl e"
proof (cases "Options_new lpy kwargs")
  case (Inl e)
  with assms(1) show ?thesis by (simp add: Options_loads_def)
next
  case (Inr opts)
  have "(''markov'', OptionsMarkov) \<in> set Options_fields"
    by (simp add: Options_fields_def)
  with Options_new_attributes [OF Inr] assms(2)
  obtain g where "group_new lpy OptionsMarkov m = Inr g" by fastforce
  with group_new_markov_mapping_raises [OF assms(3,4), of lpy] show ?thesis by simp
qed

end
